theory Spec2Isabelle
  imports Complex_Main
begin

section \<open>Tables, series and errors\<close>

text \<open>
  The notebook \<^verbatim>\<open>Figure9_PhaseStability/Equilibrate_Calcs.ipynb\<close> holds its data in one
  data frame. A cell of a data frame is an integer, a float, a text, or missing; other
  kinds of cell (dates, booleans) are not modelled. A float is a double: a finite one is
  given by its value, a real number, and there are the two infinities; the sign of zero is
  not modelled. pandas reads a spreadsheet column of integral numbers only as a column of
  integers, and a column of numbers with a fraction or a gap among them as a column of
  floats. A series is a column of cells; a table is the list of its named columns, in
  order. The column names of a loaded spreadsheet are distinct; a lookup takes the first
  column of the name.
\<close>

datatype cell = PyInt int | Num real | Infinity bool | Str string | NaN

type_synonym series = "cell list"

type_synonym table = "(string \<times> series) list"

text \<open>
  An element of a float array (\<^verbatim>\<open>.astype(float).values\<close>): a finite double, an infinity
  (\<open>True\<close> for the positive one) or nan.
\<close>

datatype npfloat = Fin real | Infty bool | Nan

text \<open>A Python scalar in an arithmetic expression: the literal \<^verbatim>\<open>10\<close> or \<^verbatim>\<open>273.15\<close>.\<close>

datatype scalar = IntLit int | FloatLit real

datatype error = KeyError string | TypeError | ValueError | OverflowError | Raised string

definition bindE :: "error + 'a \<Rightarrow> ('a \<Rightarrow> error + 'b) \<Rightarrow> error + 'b" where
  "bindE m f = (case m of Inl e \<Rightarrow> Inl e | Inr x \<Rightarrow> f x)"

text \<open>An elementwise operation over a series stops at the first cell that raises.\<close>

fun mapE :: "('a \<Rightarrow> error + 'b) \<Rightarrow> 'a list \<Rightarrow> error + 'b list" where
  "mapE f [] = Inr []"
| "mapE f (x # xs) =
     (case f x of
        Inl e \<Rightarrow> Inl e
      | Inr y \<Rightarrow> (case mapE f xs of Inl e \<Rightarrow> Inl e | Inr ys \<Rightarrow> Inr (y # ys)))"

subsection \<open>The data-frame operations the notebook calls\<close>

text \<open>\<^verbatim>\<open>Data.fillna(0.0)\<close>: every missing cell of every column becomes the fill value.\<close>

definition fill :: "cell \<Rightarrow> cell \<Rightarrow> cell" where
  "fill v c = (case c of NaN \<Rightarrow> v | _ \<Rightarrow> c)"

definition fillna :: "cell \<Rightarrow> table \<Rightarrow> table" where
  "fillna v df = map (\<lambda>(n, xs). (n, map (fill v) xs)) df"

text \<open>\<^verbatim>\<open>Data['c']\<close> raises KeyError when the column is absent.\<close>

definition getitem :: "table \<Rightarrow> string \<Rightarrow> error + series" where
  "getitem df c = (case map_of df c of None \<Rightarrow> Inl (KeyError c) | Some xs \<Rightarrow> Inr xs)"

text \<open>\<^verbatim>\<open>Data.loc[:, [c1, ..., cn]]\<close>: the listed columns, in the listed order.\<close>

fun loc_cols :: "table \<Rightarrow> string list \<Rightarrow> error + table" where
  "loc_cols df [] = Inr []"
| "loc_cols df (c # cs) =
     (case getitem df c of
        Inl e \<Rightarrow> Inl e
      | Inr xs \<Rightarrow> (case loc_cols df cs of Inl e \<Rightarrow> Inl e | Inr t \<Rightarrow> Inr ((c, xs) # t)))"

subsection \<open>Double-precision arithmetic\<close>

text \<open>
  Addition and multiplication of doubles are the exact operation followed by rounding to
  the nearest double, ties to the even mantissa (IEEE 754, binary64): 53 bits of mantissa,
  the smallest exponent of a bit \<open>-1074\<close>, and an infinity from \<open>2 ^ 1024\<close> on.
\<close>

definition pow2 :: "int \<Rightarrow> real" where
  "pow2 e = (if 0 \<le> e then 2 ^ nat e else 1 / 2 ^ nat (- e))"

text \<open>The position of the leading bit of a number other than zero.\<close>

definition binade :: "real \<Rightarrow> int" where
  "binade x = \<lfloor>log 2 \<bar>x\<bar>\<rfloor>"

definition roundeven :: "real \<Rightarrow> int" where
  "roundeven r =
     (let f = \<lfloor>r\<rfloor>; d = r - of_int f
      in if d < 1 / 2 then f else if 1 / 2 < d then f + 1 else if even f then f else f + 1)"

definition round64 :: "real \<Rightarrow> npfloat" where
  "round64 x =
     (if x = 0 then Fin 0
      else
        let e = max (binade x - 52) (- 1074);
            y = of_int (roundeven (x / pow2 e)) * pow2 e
        in if 2 ^ 1024 \<le> \<bar>y\<bar> then Infty (0 < x) else Fin y)"

text \<open>The double that Python reads the literal \<^verbatim>\<open>273.15\<close> as.\<close>

definition c273_15 :: real where
  "c273_15 = 2402652809016115 / 2 ^ 43"

text \<open>\<^verbatim>\<open>x + k\<close> and \<^verbatim>\<open>x * k\<close> for a double \<open>x\<close> and a finite double \<open>k\<close>.\<close>

fun add64 :: "real \<Rightarrow> npfloat \<Rightarrow> npfloat" where
  "add64 k (Fin x) = round64 (x + k)"
| "add64 k (Infty s) = Infty s"
| "add64 k Nan = Nan"

fun mul64 :: "real \<Rightarrow> npfloat \<Rightarrow> npfloat" where
  "mul64 k (Fin x) = round64 (x * k)"
| "mul64 k (Infty s) = (if k = 0 then Nan else Infty (s = (0 < k)))"
| "mul64 k Nan = Nan"

text \<open>
  A column of floats (every cell a float or missing) as an array of doubles; \<open>None\<close> for a
  column of another type.
\<close>

fun as_float :: "cell \<Rightarrow> npfloat option" where
  "as_float (Num x) = Some (Fin x)"
| "as_float (Infinity s) = Some (Infty s)"
| "as_float NaN = Some Nan"
| "as_float (PyInt i) = None"
| "as_float (Str s) = None"

definition float64 :: "series \<Rightarrow> npfloat list option" where
  "float64 xs = those (map as_float xs)"

fun cell_of :: "npfloat \<Rightarrow> cell" where
  "cell_of (Fin x) = Num x"
| "cell_of (Infty s) = Infinity s"
| "cell_of Nan = NaN"

text \<open>
  \<^verbatim>\<open>.astype(float)\<close> keeps a float, turns a missing cell into nan, converts an integer to
  the nearest double (OverflowError for a Python integer beyond the doubles), and parses a
  text with Python's \<^verbatim>\<open>float\<close>, which is a parameter here (\<open>None\<close>: the text is no
  number, ValueError).
\<close>

fun astype_float :: "(string \<Rightarrow> npfloat option) \<Rightarrow> cell \<Rightarrow> error + npfloat" where
  "astype_float parse (Num x) = Inr (Fin x)"
| "astype_float parse (Infinity s) = Inr (Infty s)"
| "astype_float parse NaN = Inr Nan"
| "astype_float parse (PyInt i) =
     (case round64 (of_int i) of Fin y \<Rightarrow> Inr (Fin y) | _ \<Rightarrow> Inl OverflowError)"
| "astype_float parse (Str s) =
     (case parse s of None \<Rightarrow> Inl ValueError | Some v \<Rightarrow> Inr v)"

section \<open>The world outside the notebook\<close>

text \<open>
  A workbook is the list of its named sheets; the file system maps a file name to the
  workbook stored under it.
\<close>

type_synonym workbook = "(string \<times> table) list"

type_synonym filesystem = "string \<rightharpoonup> workbook"

text \<open>
  The libraries the notebook calls are parameters of the model; each may raise.
  \<^item> \<open>read_excel\<close>: \<^verbatim>\<open>pd.read_excel(path)\<close>.
  \<^item> \<open>float_of_str\<close>: Python's \<^verbatim>\<open>float\<close> on a text.
  \<^item> \<open>pandas_add\<close>, \<open>pandas_mul\<close>: \<^verbatim>\<open>series + scalar\<close> and \<^verbatim>\<open>series * scalar\<close> for a column
    that is not a column of floats (NumPy's integer arithmetic for a column of integers,
    Python's operators cell by cell for a column with text).
  \<^item> \<open>pandas_rpow\<close>: \<^verbatim>\<open>scalar ** series\<close>. The power of doubles is the C library's and has
    no exact specification; on a column of integers with a negative entry NumPy raises
    ValueError.
  \<^item> \<open>convert_fo2_to_fe_partition\<close>: Thermobar's conversion, with the arguments
    \<^verbatim>\<open>liq_comps, T_K, P_kbar, fo2, renorm, model\<close>.
  \<^item> \<open>equilibrate_multi\<close>: PetThermoTools' routine, with the arguments
    \<^verbatim>\<open>Model, bulk, T_C, P_bar, Fe3Fet_Liq, copy_columns\<close>.
  \<^item> \<open>excel_failure\<close>: whether writing a workbook under a name fails, and then with which
    exception and leaving which file system; \<open>None\<close> means the write succeeds.
\<close>

record externals =
  read_excel :: "filesystem \<Rightarrow> string \<Rightarrow> error + table"
  float_of_str :: "string \<Rightarrow> npfloat option"
  pandas_add :: "series \<Rightarrow> scalar \<Rightarrow> error + series"
  pandas_mul :: "series \<Rightarrow> scalar \<Rightarrow> error + series"
  pandas_rpow :: "scalar \<Rightarrow> series \<Rightarrow> error + series"
  convert_fo2_to_fe_partition ::
    "table \<Rightarrow> series \<Rightarrow> series \<Rightarrow> series \<Rightarrow> bool \<Rightarrow> string \<Rightarrow> error + table"
  equilibrate_multi ::
    "string \<Rightarrow> table \<Rightarrow> npfloat list \<Rightarrow> npfloat list \<Rightarrow> npfloat list \<Rightarrow> string list
       \<Rightarrow> error + table"
  excel_failure :: "string \<Rightarrow> workbook \<Rightarrow> filesystem \<Rightarrow> (error \<times> filesystem) option"

text \<open>
  The state of a run: the file system, and the log of the calls made in the loop, in the
  order they were made. An equilibration call is logged with the exception it raised, or
  \<open>None\<close> when it returned.
\<close>

datatype event = Equilibrate string "error option" | ExcelWrite string

record state =
  files :: filesystem
  trace :: "event list"

section \<open>The notebook\<close>

text \<open>
  \<^verbatim>\<open>
  Fe3Fet_Liq=pt.convert_fo2_to_fe_partition(liq_comps = Data.loc[:,['SiO2_Liq', ...]],
      T_K = Data['T_C']+273.15, P_kbar = Data['P_GPa']*10, fo2 = 10**Data['logfO2'],
      renorm=False, model = "Kress1991")['Fe3Fet_Liq']
  \<close>
\<close>

definition liq_columns :: "string list" where
  "liq_columns =
     [''SiO2_Liq'', ''TiO2_Liq'', ''Al2O3_Liq'', ''FeOt_Liq'', ''Cr2O3_Liq'', ''MnO_Liq'',
      ''MgO_Liq'', ''CaO_Liq'', ''Na2O_Liq'', ''K2O_Liq'', ''P2O5_Liq'', ''H2O_Liq'']"

text \<open>
  \<^verbatim>\<open>series + 273.15\<close> and \<^verbatim>\<open>series * 10\<close>: on a column of floats the operation of doubles,
  cell by cell (the integer 10 is the double 10.0 there).
\<close>

definition series_add :: "externals \<Rightarrow> series \<Rightarrow> real \<Rightarrow> error + series" where
  "series_add ext xs k =
     (case float64 xs of
        Some fs \<Rightarrow> Inr (map (\<lambda>x. cell_of (add64 k x)) fs)
      | None \<Rightarrow> pandas_add ext xs (FloatLit k))"

definition series_mul :: "externals \<Rightarrow> series \<Rightarrow> int \<Rightarrow> error + series" where
  "series_mul ext xs k =
     (case float64 xs of
        Some fs \<Rightarrow> Inr (map (\<lambda>x. cell_of (mul64 (of_int k) x)) fs)
      | None \<Rightarrow> pandas_mul ext xs (IntLit k))"

text \<open>The arguments of the conversion, evaluated left to right.\<close>

definition T_K :: "externals \<Rightarrow> table \<Rightarrow> error + series" where
  "T_K ext Data = bindE (getitem Data ''T_C'') (\<lambda>s. series_add ext s c273_15)"

definition P_kbar :: "externals \<Rightarrow> table \<Rightarrow> error + series" where
  "P_kbar ext Data = bindE (getitem Data ''P_GPa'') (\<lambda>s. series_mul ext s 10)"

definition fo2 :: "externals \<Rightarrow> table \<Rightarrow> error + series" where
  "fo2 ext Data = bindE (getitem Data ''logfO2'') (pandas_rpow ext (IntLit 10))"

definition convert_args ::
  "externals \<Rightarrow> table \<Rightarrow> error + (table \<times> series \<times> series \<times> series)" where
  "convert_args ext Data =
     bindE (loc_cols Data liq_columns) (\<lambda>liq_comps.
     bindE (T_K ext Data) (\<lambda>t.
     bindE (P_kbar ext Data) (\<lambda>p.
     bindE (fo2 ext Data) (\<lambda>f.
       Inr (liq_comps, t, p, f)))))"

definition Fe3Fet_Liq :: "externals \<Rightarrow> table \<Rightarrow> error + series" where
  "Fe3Fet_Liq ext Data =
     bindE (convert_args ext Data) (\<lambda>(liq_comps, t, p, f).
     bindE (convert_fo2_to_fe_partition ext liq_comps t p f False ''Kress1991'')
       (\<lambda>out. getitem out ''Fe3Fet_Liq''))"

text \<open>
  \<^verbatim>\<open>
  model = ["MELTSv1.2.0", "MELTSv1.0.2", "pMELTS", "Green2025", "Weller2024"]
  for m in model:
      Combined = ptt.equilibrate_multi(Model = m, bulk = Data,
                     T_C = Data['T_C'].astype(float).values,
                     P_bar = Data['P_GPa'].astype(float).values*10000.0,
                     Fe3Fet_Liq= Fe3Fet_Liq.astype(float).values,
                     copy_columns=["Experiment", "Citation"])
      with pd.ExcelWriter(m + '_filt_withfO2_H2O.xlsx', engine='xlsxwriter') as writer:
          Combined.to_excel(writer, sheet_name='All Data', index=False)
  \<close>
\<close>

definition model :: "string list" where
  "model = [''MELTSv1.2.0'', ''MELTSv1.0.2'', ''pMELTS'', ''Green2025'', ''Weller2024'']"

definition copy_columns :: "string list" where
  "copy_columns = [''Experiment'', ''Citation'']"

definition out_name :: "string \<Rightarrow> string" where
  "out_name m = m @ ''_filt_withfO2_H2O.xlsx''"

definition sheet :: "table \<Rightarrow> workbook" where
  "sheet Combined = [(''All Data'', Combined)]"

text \<open>The three array arguments of the equilibration call, evaluated left to right.\<close>

definition T_C_values :: "externals \<Rightarrow> table \<Rightarrow> error + npfloat list" where
  "T_C_values ext Data =
     bindE (getitem Data ''T_C'') (mapE (astype_float (float_of_str ext)))"

definition P_bar :: "externals \<Rightarrow> table \<Rightarrow> error + npfloat list" where
  "P_bar ext Data =
     bindE (getitem Data ''P_GPa'') (\<lambda>p.
     bindE (mapE (astype_float (float_of_str ext)) p) (\<lambda>P.
       Inr (map (mul64 10000) P)))"

definition Fe3Fet_values :: "externals \<Rightarrow> series \<Rightarrow> error + npfloat list" where
  "Fe3Fet_values ext fe = mapE (astype_float (float_of_str ext)) fe"

definition equil_args ::
  "externals \<Rightarrow> table \<Rightarrow> series \<Rightarrow> error + (npfloat list \<times> npfloat list \<times> npfloat list)" where
  "equil_args ext Data fe =
     bindE (T_C_values ext Data) (\<lambda>t.
     bindE (P_bar ext Data) (\<lambda>p.
     bindE (Fe3Fet_values ext fe) (\<lambda>f.
       Inr (t, p, f))))"

text \<open>
  The loop over the models. There is no \<^verbatim>\<open>try\<close> in the source: the first exception ends
  the run, with the state as it is at that moment.
\<close>

fun equilibrate_loop ::
  "externals \<Rightarrow> table \<Rightarrow> series \<Rightarrow> string list \<Rightarrow> state \<Rightarrow> error option \<times> state" where
  "equilibrate_loop ext Data fe [] st = (None, st)"
| "equilibrate_loop ext Data fe (m # ms) st =
     (case equil_args ext Data fe of
        Inl e \<Rightarrow> (Some e, st)
      | Inr (t, p, f) \<Rightarrow>
          (case equilibrate_multi ext m Data t p f copy_columns of
             Inl e \<Rightarrow> (Some e, st\<lparr>trace := trace st @ [Equilibrate m (Some e)]\<rparr>)
           | Inr Combined \<Rightarrow>
               (case excel_failure ext (out_name m) (sheet Combined) (files st) of
                  Some (e, fs') \<Rightarrow>
                    (Some e,
                     \<lparr>files = fs',
                      trace = trace st @ [Equilibrate m None, ExcelWrite (out_name m)]\<rparr>)
                | None \<Rightarrow>
                    equilibrate_loop ext Data fe ms
                      \<lparr>files = (files st)(out_name m \<mapsto> sheet Combined),
                       trace = trace st
                         @ [Equilibrate m None, ExcelWrite (out_name m)]\<rparr>)))"

text \<open>
  The whole notebook: load the spreadsheet, fill the missing cells with 0.0, compute the
  ferric-iron fraction, run the loop.
  \<^verbatim>\<open>
  Data = pd.read_excel('df_for_MELTS_H2O_fo2.xlsx')
  Data = Data.fillna(0.0)
  \<close>
\<close>

definition load_data :: "externals \<Rightarrow> filesystem \<Rightarrow> error + table" where
  "load_data ext fs =
     bindE (read_excel ext fs ''df_for_MELTS_H2O_fo2.xlsx'') (\<lambda>Data. Inr (fillna (Num 0) Data))"

definition calculations :: "externals \<Rightarrow> table \<Rightarrow> filesystem \<Rightarrow> error option \<times> state" where
  "calculations ext Data fs =
     (case Fe3Fet_Liq ext Data of
        Inl e \<Rightarrow> (Some e, \<lparr>files = fs, trace = []\<rparr>)
      | Inr fe \<Rightarrow> equilibrate_loop ext Data fe model \<lparr>files = fs, trace = []\<rparr>)"

definition notebook :: "externals \<Rightarrow> filesystem \<Rightarrow> error option \<times> state" where
  "notebook ext fs =
     (case load_data ext fs of
        Inl e \<Rightarrow> (Some e, \<lparr>files = fs, trace = []\<rparr>)
      | Inr Data \<Rightarrow> calculations ext Data fs)"

section \<open>Notions used to state the properties\<close>

text \<open>
  The table the statement \<^verbatim>\<open>Combined = ptt.equilibrate_multi(...)\<close> yields for a model:
  the arguments are evaluated, then the routine is called.
\<close>

definition Combined :: "externals \<Rightarrow> table \<Rightarrow> series \<Rightarrow> string \<Rightarrow> error + table" where
  "Combined ext Data fe m =
     bindE (equil_args ext Data fe) (\<lambda>(t, p, f).
       equilibrate_multi ext m Data t p f copy_columns)"

text \<open>The log of a run over the models \<open>ms\<close> in which nothing raises.\<close>

definition schedule :: "string list \<Rightarrow> event list" where
  "schedule ms = concat (map (\<lambda>m. [Equilibrate m None, ExcelWrite (out_name m)]) ms)"

text \<open>An event without its outcome.\<close>

fun attempted :: "event \<Rightarrow> event" where
  "attempted (Equilibrate m r) = Equilibrate m None"
| "attempted (ExcelWrite f) = ExcelWrite f"

text \<open>
  \<open>written ext Data fe ms fs fs'\<close>: the file system \<open>fs'\<close> is \<open>fs\<close> with, for each model of
  \<open>ms\<close>, its result table stored as the only sheet of its output file, and every other
  file as it was.
\<close>

definition written ::
  "externals \<Rightarrow> table \<Rightarrow> series \<Rightarrow> string list \<Rightarrow> filesystem \<Rightarrow> filesystem \<Rightarrow> bool" where
  "written ext Data fe ms fs fs' \<longleftrightarrow>
     (\<forall>f. f \<notin> out_name ` set ms \<longrightarrow> fs' f = fs f) \<and>
     (\<forall>m \<in> set ms. \<exists>C. Combined ext Data fe m = Inr C \<and> fs' (out_name m) = Some (sheet C))"

text \<open>
  How the loop can end, with the models \<open>rest\<close> not completed, the result \<open>r\<close>, the last
  events \<open>evs\<close>, the file system \<open>fs1\<close> after the writes of the completed models and
  the final file system \<open>fs'\<close>: every model was completed; or, at the first model of
  \<open>rest\<close>, an argument of the call raised, the call raised, or the write raised.
\<close>

definition halted ::
  "externals \<Rightarrow> table \<Rightarrow> series \<Rightarrow> string list \<Rightarrow> error option \<Rightarrow> event list
     \<Rightarrow> filesystem \<Rightarrow> filesystem \<Rightarrow> bool" where
  "halted ext Data fe rest r evs fs1 fs' \<longleftrightarrow>
     (r = None \<and> rest = [] \<and> evs = [] \<and> fs' = fs1) \<or>
     (\<exists>m post e. rest = m # post \<and> r = Some e \<and>
        ((evs = [] \<and> equil_args ext Data fe = Inl e \<and> fs' = fs1) \<or>
         (evs = [Equilibrate m (Some e)] \<and> (\<exists>a. equil_args ext Data fe = Inr a)
            \<and> Combined ext Data fe m = Inl e \<and> fs' = fs1) \<or>
         (evs = [Equilibrate m None, ExcelWrite (out_name m)]
            \<and> (\<exists>C. Combined ext Data fe m = Inr C
                  \<and> excel_failure ext (out_name m) (sheet C) fs1 = Some (e, fs')))))"

text \<open>The names of the files of the writes of a log, in the order of the writes.\<close>

fun written_files :: "event list \<Rightarrow> string list" where
  "written_files [] = []"
| "written_files (ExcelWrite f # evs) = f # written_files evs"
| "written_files (Equilibrate m r # evs) = written_files evs"

section \<open>A small run\<close>

text \<open>
  A spreadsheet of one experiment, with three missing cells and columns of floats, and
  libraries that return fixed tables; the equilibration raises for the models listed in
  \<open>failing\<close> and otherwise returns the columns it is asked to copy and one more. The
  second table differs from the first in its identifier columns only. The last constant is
  the double nearest to 0.09.
\<close>

definition example_raw :: table where
  "example_raw =
     [(''Experiment'', [Str ''E1'']), (''Citation'', [NaN]),
      (''SiO2_Liq'', [Num 50.25]), (''TiO2_Liq'', [Num 2.125]), (''Al2O3_Liq'', [Num 14.5]),
      (''FeOt_Liq'', [Num 11.25]), (''Cr2O3_Liq'', [NaN]), (''MnO_Liq'', [Num 0.25]),
      (''MgO_Liq'', [Num 8.5]), (''CaO_Liq'', [Num 11.75]), (''Na2O_Liq'', [Num 2.5]),
      (''K2O_Liq'', [Num 0.5]), (''P2O5_Liq'', [Num 0.375]), (''H2O_Liq'', [NaN]),
      (''T_C'', [Num 1200.5]), (''P_GPa'', [Num 0.75]), (''logfO2'', [Num (-8.5)])]"

definition example_ext :: "string list \<Rightarrow> externals" where
  "example_ext failing =
     \<lparr>read_excel = (\<lambda>fs f. Inr example_raw),
      float_of_str = (\<lambda>s. None),
      pandas_add = (\<lambda>s k. Inl TypeError),
      pandas_mul = (\<lambda>s k. Inl TypeError),
      pandas_rpow = (\<lambda>k s. Inr (map (\<lambda>c. Num 0.5) s)),
      convert_fo2_to_fe_partition =
        (\<lambda>liq_comps t p f renorm calib. Inr [(''Fe3Fet_Liq'', [Num (1 / 8)])]),
      equilibrate_multi = (\<lambda>m bulk t p f cols.
         if m \<in> set failing then Inl (Raised ''no convergence'')
         else bindE (loc_cols bulk cols) (\<lambda>ids. Inr (ids @ [(''liquid1'', [Num 1])]))),
      excel_failure = (\<lambda>f wb fs. None)\<rparr>"

definition example_other :: table where
  "example_other = (''Experiment'', [Str ''E2'']) # (''Citation'', [Str ''C2'']) # drop 2 example_raw"

definition example_Combined :: table where
  "example_Combined =
     [(''Experiment'', [Str ''E1'']), (''Citation'', [Num 0]), (''liquid1'', [Num 1])]"

definition double_0_09 :: real where
  "double_0_09 = 3242591731706757 / 2 ^ 55"

section \<open>Auxiliary facts\<close>

lemma map_of_fillna: "map_of (fillna v df) c = map_option (map (fill v)) (map_of df c)"
  by (induction df) (auto simp: fillna_def)

lemma fill_no_NaN: "v \<noteq> NaN \<Longrightarrow> fill v c \<noteq> NaN"
  by (cases c) (simp_all add: fill_def)

lemma fillna_no_NaN:
  assumes "v \<noteq> NaN" and "(n, xs) \<in> set (fillna v df)"
  shows "NaN \<notin> set xs"
proof -
  from assms(2) obtain ys where "xs = map (fill v) ys"
    by (auto simp: fillna_def)
  with fill_no_NaN[OF assms(1)] show ?thesis
    by (metis (no_types, lifting) imageE list.set_map)
qed

lemma out_name_inj: "out_name a = out_name b \<longleftrightarrow> a = b"
  by (simp add: out_name_def)

lemma schedule_Nil: "schedule [] = []"
  by (simp add: schedule_def)

lemma schedule_Cons: "schedule (m # ms) = Equilibrate m None # ExcelWrite (out_name m) # schedule ms"
  by (simp add: schedule_def)

lemma written_Nil: "written ext Data fe [] fs fs"
  by (simp add: written_def)

lemma written_Cons:
  assumes "Combined ext Data fe m = Inr C" and "m \<notin> set pre"
    and "written ext Data fe pre (fs(out_name m \<mapsto> sheet C)) fs'"
  shows "written ext Data fe (m # pre) fs fs'"
proof -
  have other: "fs' f = fs f" if "f \<notin> out_name ` set (m # pre)" for f
  proof -
    from that have "f \<notin> out_name ` set pre" and "f \<noteq> out_name m" by auto
    with assms(3) show ?thesis by (simp add: written_def)
  qed
  have "out_name m \<notin> out_name ` set pre"
    using assms(2) by (auto simp: out_name_inj)
  with assms(3) have here: "fs' (out_name m) = Some (sheet C)"
    by (simp add: written_def)
  have "\<exists>C'. Combined ext Data fe m' = Inr C' \<and> fs' (out_name m') = Some (sheet C')"
    if "m' \<in> set (m # pre)" for m'
  proof (cases "m' = m")
    case True
    with assms(1) here show ?thesis by simp
  next
    case False
    with that have "m' \<in> set pre" by simp
    with assms(3) show ?thesis by (simp add: written_def)
  qed
  with other show ?thesis unfolding written_def by blast
qed

lemma loop_args_fail:
  "equil_args ext Data fe = Inl e \<Longrightarrow> equilibrate_loop ext Data fe (m # ms) st = (Some e, st)"
  by simp

lemma loop_call_fail:
  "Combined ext Data fe m = Inl e \<Longrightarrow> equil_args ext Data fe = Inr a \<Longrightarrow>
   equilibrate_loop ext Data fe (m # ms) st = (Some e, st\<lparr>trace := trace st @ [Equilibrate m (Some e)]\<rparr>)"
  by (cases a) (simp add: Combined_def bindE_def)

lemma loop_write_fail:
  "Combined ext Data fe m = Inr C \<Longrightarrow> excel_failure ext (out_name m) (sheet C) (files st) = Some (e, fs') \<Longrightarrow>
   equilibrate_loop ext Data fe (m # ms) st =
     (Some e, \<lparr>files = fs', trace = trace st @ [Equilibrate m None, ExcelWrite (out_name m)]\<rparr>)"
  by (cases "equil_args ext Data fe") (auto simp add: Combined_def bindE_def)

lemma loop_step:
  "Combined ext Data fe m = Inr C \<Longrightarrow> excel_failure ext (out_name m) (sheet C) (files st) = None \<Longrightarrow>
   equilibrate_loop ext Data fe (m # ms) st =
     equilibrate_loop ext Data fe ms
       \<lparr>files = (files st)(out_name m \<mapsto> sheet C),
        trace = trace st @ [Equilibrate m None, ExcelWrite (out_name m)]\<rparr>"
  by (cases "equil_args ext Data fe") (auto simp add: Combined_def bindE_def)

lemma loop_outcome:
  assumes "equilibrate_loop ext Data fe ms st = (r, st')" and "distinct ms"
  shows "\<exists>pre rest evs fs1. ms = pre @ rest \<and> trace st' = trace st @ schedule pre @ evs \<and>
           written ext Data fe pre (files st) fs1 \<and>
           halted ext Data fe rest r evs fs1 (files st')"
  using assms
proof (induction ms arbitrary: st)
  case Nil
  then have "r = None" "st' = st" by simp_all
  then have "[] = [] @ [] \<and> trace st' = trace st @ schedule [] @ [] \<and>
           written ext Data fe [] (files st) (files st) \<and>
           halted ext Data fe [] r [] (files st) (files st')"
    by (simp add: schedule_Nil written_Nil halted_def)
  then show ?case
    by (rule_tac x = "[]" in exI, rule_tac x = "[]" in exI, rule_tac x = "[]" in exI,
        rule_tac x = "files st" in exI)
next
  case (Cons m ms)
  show ?case
  proof (cases "equil_args ext Data fe")
    case (Inl e)
    from Cons.prems(1) have "r = Some e" "st' = st"
      unfolding loop_args_fail[OF Inl] by auto
    then have "m # ms = [] @ (m # ms) \<and> trace st' = trace st @ schedule [] @ [] \<and>
           written ext Data fe [] (files st) (files st) \<and>
           halted ext Data fe (m # ms) r [] (files st) (files st')"
      using Inl by (simp add: schedule_Nil written_Nil halted_def)
    then show ?thesis
      by (rule_tac x = "[]" in exI, rule_tac x = "m # ms" in exI, rule_tac x = "[]" in exI,
          rule_tac x = "files st" in exI)
  next
    case (Inr a)
    show ?thesis
    proof (cases "Combined ext Data fe m")
      case c: (Inl e)
      from Cons.prems(1) have "r = Some e" "st' = st\<lparr>trace := trace st @ [Equilibrate m (Some e)]\<rparr>"
        unfolding loop_call_fail[OF c Inr] by auto
      then have "m # ms = [] @ (m # ms) \<and>
           trace st' = trace st @ schedule [] @ [Equilibrate m (Some e)] \<and>
           written ext Data fe [] (files st) (files st) \<and>
           halted ext Data fe (m # ms) r [Equilibrate m (Some e)] (files st) (files st')"
        using c Inr by (cases a) (simp add: schedule_Nil written_Nil halted_def)
      then show ?thesis
        by (rule_tac x = "[]" in exI, rule_tac x = "m # ms" in exI,
            rule_tac x = "[Equilibrate m (Some e)]" in exI, rule_tac x = "files st" in exI)
    next
      case c: (Inr C)
      show ?thesis
      proof (cases "excel_failure ext (out_name m) (sheet C) (files st)")
        case (Some p)
        obtain e fs' where p: "excel_failure ext (out_name m) (sheet C) (files st) = Some (e, fs')"
          using Some by (cases p) auto
        from Cons.prems(1) have "r = Some e"
          "st' = \<lparr>files = fs', trace = trace st @ [Equilibrate m None, ExcelWrite (out_name m)]\<rparr>"
          unfolding loop_write_fail[OF c p] by auto
        then have "m # ms = [] @ (m # ms) \<and>
           trace st' = trace st @ schedule [] @ [Equilibrate m None, ExcelWrite (out_name m)] \<and>
           written ext Data fe [] (files st) (files st) \<and>
           halted ext Data fe (m # ms) r [Equilibrate m None, ExcelWrite (out_name m)]
             (files st) (files st')"
          using c p by (simp add: schedule_Nil written_Nil halted_def)
        then show ?thesis
          by (rule_tac x = "[]" in exI, rule_tac x = "m # ms" in exI,
              rule_tac x = "[Equilibrate m None, ExcelWrite (out_name m)]" in exI,
              rule_tac x = "files st" in exI)
      next
        case None
        define st2 where "st2 = \<lparr>files = (files st)(out_name m \<mapsto> sheet C),
                       trace = trace st @ [Equilibrate m None, ExcelWrite (out_name m)]\<rparr>"
        from Cons.prems(1) have run: "equilibrate_loop ext Data fe ms st2 = (r, st')"
          unfolding loop_step[OF c None] st2_def .
        from Cons.prems have d: "distinct ms" and notin: "m \<notin> set ms" by auto
        from Cons.IH[OF run d] show ?thesis
        proof (elim exE conjE)
          fix pre rest evs fs1
          assume ms: "ms = pre @ rest" and tr: "trace st' = trace st2 @ schedule pre @ evs"
            and w: "written ext Data fe pre (files st2) fs1"
            and h: "halted ext Data fe rest r evs fs1 (files st')"
          have ms': "m # ms = (m # pre) @ rest" using ms by simp
          have tr': "trace st' = trace st @ schedule (m # pre) @ evs"
            using tr by (simp add: st2_def schedule_Cons)
          have mpre: "m \<notin> set pre" using notin ms by simp
          have w': "written ext Data fe (m # pre) (files st) fs1"
            using w written_Cons[OF c mpre] by (simp add: st2_def)
          from ms' tr' w' h have "m # ms = (m # pre) @ rest \<and>
             trace st' = trace st @ schedule (m # pre) @ evs \<and>
             written ext Data fe (m # pre) (files st) fs1 \<and>
             halted ext Data fe rest r evs fs1 (files st')" by (intro conjI)
          then show ?thesis
            by (rule_tac x = "m # pre" in exI, rule_tac x = rest in exI, rule_tac x = evs in exI,
                rule_tac x = fs1 in exI)
        qed
      qed
    qed
  qed
qed

lemma schedule_model:
  "schedule model =
     [Equilibrate ''MELTSv1.2.0'' None, ExcelWrite ''MELTSv1.2.0_filt_withfO2_H2O.xlsx'',
      Equilibrate ''MELTSv1.0.2'' None, ExcelWrite ''MELTSv1.0.2_filt_withfO2_H2O.xlsx'',
      Equilibrate ''pMELTS'' None, ExcelWrite ''pMELTS_filt_withfO2_H2O.xlsx'',
      Equilibrate ''Green2025'' None, ExcelWrite ''Green2025_filt_withfO2_H2O.xlsx'',
      Equilibrate ''Weller2024'' None, ExcelWrite ''Weller2024_filt_withfO2_H2O.xlsx'']"
  by (simp add: schedule_def model_def out_name_def)

lemma distinct_model: "distinct model"
  by (simp add: model_def)

lemma notebook_cases:
  "(\<exists>e. notebook ext fs = (Some e, \<lparr>files = fs, trace = []\<rparr>) \<and>
        (load_data ext fs = Inl e \<or>
         (\<exists>Data. load_data ext fs = Inr Data \<and> Fe3Fet_Liq ext Data = Inl e))) \<or>
   (\<exists>Data fe. load_data ext fs = Inr Data \<and> Fe3Fet_Liq ext Data = Inr fe \<and>
      notebook ext fs = equilibrate_loop ext Data fe model \<lparr>files = fs, trace = []\<rparr>)"
  by (simp add: notebook_def calculations_def split: sum.splits)

lemma notebook_outcome:
  "(\<exists>e. notebook ext fs = (Some e, \<lparr>files = fs, trace = []\<rparr>) \<and>
        (load_data ext fs = Inl e \<or>
         (\<exists>Data. load_data ext fs = Inr Data \<and> Fe3Fet_Liq ext Data = Inl e))) \<or>
   (\<exists>Data fe pre rest evs fs1. load_data ext fs = Inr Data \<and> Fe3Fet_Liq ext Data = Inr fe \<and>
      model = pre @ rest \<and> trace (snd (notebook ext fs)) = schedule pre @ evs \<and>
      written ext Data fe pre fs fs1 \<and>
      halted ext Data fe rest (fst (notebook ext fs)) evs fs1 (files (snd (notebook ext fs))))"
proof -
  from notebook_cases[of ext fs] show ?thesis
  proof
    assume "\<exists>e. notebook ext fs = (Some e, \<lparr>files = fs, trace = []\<rparr>) \<and>
        (load_data ext fs = Inl e \<or>
         (\<exists>Data. load_data ext fs = Inr Data \<and> Fe3Fet_Liq ext Data = Inl e))"
    then show ?thesis by (rule disjI1)
  next
    assume "\<exists>Data fe. load_data ext fs = Inr Data \<and> Fe3Fet_Liq ext Data = Inr fe \<and>
      notebook ext fs = equilibrate_loop ext Data fe model \<lparr>files = fs, trace = []\<rparr>"
    then obtain Data fe where l: "load_data ext fs = Inr Data" and f: "Fe3Fet_Liq ext Data = Inr fe"
      and n: "equilibrate_loop ext Data fe model \<lparr>files = fs, trace = []\<rparr> = (fst (notebook ext fs), snd (notebook ext fs))"
      by auto
    from loop_outcome[OF n distinct_model] l f show ?thesis
      by simp
  qed
qed

lemma notebook_outcome_short:
  "(\<exists>e. notebook ext fs = (Some e, \<lparr>files = fs, trace = []\<rparr>)) \<or>
   (\<exists>Data fe pre rest evs fs1. load_data ext fs = Inr Data \<and> Fe3Fet_Liq ext Data = Inr fe \<and>
      model = pre @ rest \<and> trace (snd (notebook ext fs)) = schedule pre @ evs \<and>
      written ext Data fe pre fs fs1 \<and>
      halted ext Data fe rest (fst (notebook ext fs)) evs fs1 (files (snd (notebook ext fs))))"
  using notebook_outcome[of ext fs]
proof
  assume "\<exists>e. notebook ext fs = (Some e, \<lparr>files = fs, trace = []\<rparr>) \<and>
        (load_data ext fs = Inl e \<or>
         (\<exists>Data. load_data ext fs = Inr Data \<and> Fe3Fet_Liq ext Data = Inl e))"
  then obtain e where "notebook ext fs = (Some e, \<lparr>files = fs, trace = []\<rparr>)"
    by (elim exE conjE)
  then have "\<exists>e. notebook ext fs = (Some e, \<lparr>files = fs, trace = []\<rparr>)" by (rule exI)
  then show ?thesis by (rule disjI1)
next
  assume "\<exists>Data fe pre rest evs fs1. load_data ext fs = Inr Data \<and> Fe3Fet_Liq ext Data = Inr fe \<and>
      model = pre @ rest \<and> trace (snd (notebook ext fs)) = schedule pre @ evs \<and>
      written ext Data fe pre fs fs1 \<and>
      halted ext Data fe rest (fst (notebook ext fs)) evs fs1 (files (snd (notebook ext fs)))"
  then show ?thesis by (rule disjI2)
qed

lemma set_schedule:
  "set (schedule ms) = (\<lambda>m. Equilibrate m None) ` set ms \<union> (\<lambda>m. ExcelWrite (out_name m)) ` set ms"
  by (induction ms) (auto simp: schedule_Nil schedule_Cons)


lemma Equilibrate_in_schedule: "Equilibrate m x \<in> set (schedule ms) \<Longrightarrow> m \<in> set ms"
  by (auto simp: set_schedule)

lemma written_files_append: "written_files (xs @ ys) = written_files xs @ written_files ys"
  by (induction xs rule: written_files.induct) simp_all

lemma written_files_schedule: "written_files (schedule ms) = map out_name ms"
  by (induction ms) (simp_all add: schedule_Nil schedule_Cons)

lemma calls_in_schedule:
  "m \<notin> set ms \<Longrightarrow> filter (\<lambda>ev. attempted ev = Equilibrate m None) (schedule ms) = []"
  by (induction ms) (auto simp: schedule_Nil schedule_Cons)




lemma no_failure_in_schedule: "Equilibrate m (Some e) \<notin> set (schedule ms)"
  by (auto simp: set_schedule)

lemma halted_failed_call:
  assumes "halted ext Data fe rest r evs fs1 fs'" and "Equilibrate m (Some e) \<in> set evs"
  shows "r = Some e \<and> evs = [Equilibrate m (Some e)] \<and> Combined ext Data fe m = Inl e
         \<and> fs' = fs1 \<and> (\<exists>post. rest = m # post)"
  using assms by (auto simp: halted_def)

lemma written_untouched:
  assumes "written ext Data fe pre fs fs'" and "m \<notin> set pre"
  shows "fs' (out_name m) = fs (out_name m)"
proof -
  have "out_name m \<notin> out_name ` set pre"
    using assms(2) by (auto simp: out_name_inj)
  with assms(1) show ?thesis by (simp add: written_def)
qed

lemma pow2_pos: "0 < pow2 e"
  by (simp add: pow2_def)

lemma pow2_powr: "pow2 e = 2 powr (of_int e)"
  using powr_int[of 2 e] by (simp add: pow2_def)

lemma binade_eq:
  assumes "pow2 k \<le> \<bar>x\<bar>" and "\<bar>x\<bar> < pow2 (k + 1)"
  shows "binade x = k"
proof -
  have pos: "0 < \<bar>x\<bar>" using assms(1) pow2_pos[of k] by linarith
  have "of_int k \<le> log 2 \<bar>x\<bar>"
    using assms(1) pos by (simp add: le_log_iff pow2_powr)
  moreover have "log 2 \<bar>x\<bar> < of_int k + 1"
    using assms(2) pos by (simp add: log_less_iff pow2_powr)
  ultimately show ?thesis
    unfolding binade_def by (simp add: floor_eq_iff)
qed

lemma roundeven_near:
  assumes "\<bar>r - of_int n\<bar> < 1 / 2"
  shows "roundeven r = n"
proof (cases "of_int n \<le> r")
  case True
  have "\<lfloor>r\<rfloor> = n"
    unfolding floor_eq_iff using assms True by linarith
  moreover have "r - of_int n < 1 / 2" using assms by linarith
  ultimately show ?thesis by (simp add: roundeven_def Let_def)
next
  case False
  have f: "\<lfloor>r\<rfloor> = n - 1"
    unfolding floor_eq_iff using assms False by (simp; linarith?)
  have "1 / 2 < r - of_int (n - 1)" using assms False by (simp; linarith?)
  then have "\<not> r - of_int (n - 1) < 1 / 2" by linarith
  with f \<open>1 / 2 < r - of_int (n - 1)\<close> show ?thesis
    by (simp add: roundeven_def Let_def)
qed

lemma roundeven_tie:
  assumes "r = of_int n + 1 / 2" and "even n"
  shows "roundeven r = n"
proof -
  have "\<lfloor>r\<rfloor> = n" using assms(1) by (simp add: floor_eq_iff)
  with assms show ?thesis by (simp add: roundeven_def Let_def)
qed

lemma round64_normal:
  assumes "pow2 k \<le> \<bar>x\<bar>" and "\<bar>x\<bar> < pow2 (k + 1)" and "- 1022 \<le> k"
    and "roundeven (x / pow2 (k - 52)) = n"
    and "\<bar>of_int n * pow2 (k - 52)\<bar> < 2 ^ 1024"
  shows "round64 x = Fin (of_int n * pow2 (k - 52))"
proof -
  have "x \<noteq> 0" using assms(1) pow2_pos[of k] by auto
  moreover have "binade x = k" using assms(1,2) by (rule binade_eq)
  moreover have "max (k - 52) (- 1074) = k - 52" using assms(3) by simp
  ultimately show ?thesis
    using assms(4,5) by (simp add: round64_def Let_def)
qed

lemma double_009: "round64 (9 / 100) = Fin (3242591731706757 / 2 ^ 55)"
proof -
  have "roundeven ((9 / 100) / pow2 (-4 - 52)) = 6485183463413514"
    by (rule roundeven_near) (simp add: pow2_def)
  from round64_normal[where k = "-4", OF _ _ _ this] show ?thesis
    by (simp add: pow2_def)
qed


lemma times_10: "round64 (3242591731706757 / 2 ^ 55 * 10) = Fin (2026619832316723 / 2 ^ 51)"
proof -
  have "roundeven ((3242591731706757 / 2 ^ 55 * 10) / pow2 (-1 - 52)) = 8106479329266892"
    by (rule roundeven_tie) (simp_all add: pow2_def)
  from round64_normal[where k = "-1", OF _ _ _ this] show ?thesis
    by (simp add: pow2_def)
qed

lemma times_10000: "round64 (3242591731706757 / 2 ^ 55 * 10000) = Fin 900"
proof -
  have "roundeven ((3242591731706757 / 2 ^ 55 * 10000) / pow2 (9 - 52)) = 7916483719987200"
    by (rule roundeven_near) (simp add: pow2_def)
  from round64_normal[where k = 9, OF _ _ _ this] show ?thesis
    by (simp add: pow2_def)
qed

lemma float64_Num: "float64 (map Num xs) = Some (map Fin xs)"
  by (induction xs) (simp_all add: float64_def)

lemma series_add_Num:
  "series_add ext (map Num xs) k = Inr (map (\<lambda>x. cell_of (round64 (x + k))) xs)"
  by (simp add: series_add_def float64_Num comp_def)

lemma series_mul_Num:
  "series_mul ext (map Num xs) k = Inr (map (\<lambda>x. cell_of (round64 (x * of_int k))) xs)"
  by (simp add: series_mul_def float64_Num comp_def)

lemma mapE_astype_float: "mapE (astype_float parse) (map Num xs) = Inr (map Fin xs)"
  by (induction xs) simp_all

lemma getitem_cong: "map_of t1 c = map_of t2 c \<Longrightarrow> getitem t1 c = getitem t2 c"
  by (simp add: getitem_def)

lemma loc_cols_cong:
  "(\<And>c. c \<in> set cs \<Longrightarrow> map_of t1 c = map_of t2 c) \<Longrightarrow> loc_cols t1 cs = loc_cols t2 cs"
proof (induction cs)
  case Nil
  show ?case by simp
next
  case (Cons a cs)
  have "getitem t1 a = getitem t2 a"
    by (rule getitem_cong, rule Cons.prems, simp)
  moreover have "loc_cols t1 cs = loc_cols t2 cs"
    by (rule Cons.IH, rule Cons.prems, simp)
  ultimately show ?case by (simp split: sum.splits)
qed

lemma convert_args_cong:
  assumes "\<And>c. c \<in> set (liq_columns @ [''T_C'', ''P_GPa'', ''logfO2'']) \<Longrightarrow> map_of t1 c = map_of t2 c"
  shows "convert_args ext t1 = convert_args ext t2"
proof -
  have "loc_cols t1 liq_columns = loc_cols t2 liq_columns"
    by (rule loc_cols_cong, rule assms, simp)
  moreover have "getitem t1 ''T_C'' = getitem t2 ''T_C''"
    by (rule getitem_cong, rule assms, simp)
  moreover have "getitem t1 ''P_GPa'' = getitem t2 ''P_GPa''"
    by (rule getitem_cong, rule assms, simp)
  moreover have "getitem t1 ''logfO2'' = getitem t2 ''logfO2''"
    by (rule getitem_cong, rule assms, simp)
  ultimately show ?thesis
    by (simp add: convert_args_def T_K_def P_kbar_def fo2_def)
qed

lemma T_K_floats:
  "map_of Data ''T_C'' = Some (map Num tc) \<Longrightarrow>
   T_K ext Data = Inr (map (\<lambda>x. cell_of (round64 (x + c273_15))) tc)"
  by (simp add: T_K_def getitem_def bindE_def series_add_Num)

lemma P_kbar_floats:
  "map_of Data ''P_GPa'' = Some (map Num p) \<Longrightarrow>
   P_kbar ext Data = Inr (map (\<lambda>x. cell_of (round64 (x * 10))) p)"
  by (simp add: P_kbar_def getitem_def bindE_def series_mul_Num)

lemma T_C_values_floats:
  "map_of Data ''T_C'' = Some (map Num tc) \<Longrightarrow> T_C_values ext Data = Inr (map Fin tc)"
  by (simp add: T_C_values_def getitem_def bindE_def mapE_astype_float)

lemma P_bar_floats:
  "map_of Data ''P_GPa'' = Some (map Num p) \<Longrightarrow>
   P_bar ext Data = Inr (map (\<lambda>x. round64 (x * 10000)) p)"
  by (simp add: P_bar_def getitem_def bindE_def mapE_astype_float comp_def)

lemma Fe3Fet_Liq_floats:
  assumes "map_of Data ''T_C'' = Some (map Num tc)"
    and "map_of Data ''P_GPa'' = Some (map Num p)"
    and "map_of Data ''logfO2'' = Some lf"
  shows "Fe3Fet_Liq ext Data =
           bindE (loc_cols Data liq_columns) (\<lambda>liq_comps.
           bindE (pandas_rpow ext (IntLit 10) lf) (\<lambda>fo2.
           bindE (convert_fo2_to_fe_partition ext liq_comps
                    (map (\<lambda>x. cell_of (round64 (x + c273_15))) tc)
                    (map (\<lambda>x. cell_of (round64 (x * 10))) p)
                    fo2 False ''Kress1991'')
             (\<lambda>out. getitem out ''Fe3Fet_Liq'')))"
  using assms(3)
  by (simp add: Fe3Fet_Liq_def convert_args_def T_K_floats[OF assms(1)] P_kbar_floats[OF assms(2)]
      fo2_def getitem_def bindE_def split: sum.splits)

lemma Combined_floats:
  assumes "map_of Data ''T_C'' = Some (map Num tc)"
    and "map_of Data ''P_GPa'' = Some (map Num p)"
  shows "Combined ext Data fe m =
           bindE (Fe3Fet_values ext fe) (\<lambda>F.
             equilibrate_multi ext m Data (map Fin tc) (map (\<lambda>x. round64 (x * 10000)) p) F
               [''Experiment'', ''Citation''])"
  by (simp add: Combined_def equil_args_def T_C_values_floats[OF assms(1)] P_bar_floats[OF assms(2)]
      bindE_def copy_columns_def split: sum.splits)

lemma example_load:
  "load_data (example_ext failing) fs = Inr (fillna (Num 0) example_raw)"
  by (simp add: load_data_def example_ext_def bindE_def)

lemma example_filled:
  "fillna (Num 0) example_raw =
     [(''Experiment'', [Str ''E1'']), (''Citation'', [Num 0]),
      (''SiO2_Liq'', [Num 50.25]), (''TiO2_Liq'', [Num 2.125]), (''Al2O3_Liq'', [Num 14.5]),
      (''FeOt_Liq'', [Num 11.25]), (''Cr2O3_Liq'', [Num 0]), (''MnO_Liq'', [Num 0.25]),
      (''MgO_Liq'', [Num 8.5]), (''CaO_Liq'', [Num 11.75]), (''Na2O_Liq'', [Num 2.5]),
      (''K2O_Liq'', [Num 0.5]), (''P2O5_Liq'', [Num 0.375]), (''H2O_Liq'', [Num 0]),
      (''T_C'', [Num 1200.5]), (''P_GPa'', [Num 0.75]), (''logfO2'', [Num (-8.5)])]"
  by (simp add: fillna_def fill_def example_raw_def)

lemma example_T_C: "map_of (fillna (Num 0) example_raw) ''T_C'' = Some (map Num [1200.5])"
  unfolding example_filled by simp

lemma example_P_GPa: "map_of (fillna (Num 0) example_raw) ''P_GPa'' = Some (map Num [0.75])"
  unfolding example_filled by simp

lemma example_logfO2: "map_of (fillna (Num 0) example_raw) ''logfO2'' = Some [Num (-8.5)]"
  unfolding example_filled by simp

lemma example_Fe3Fet:
  "Fe3Fet_Liq (example_ext failing) (fillna (Num 0) example_raw) = Inr [Num (1 / 8)]"
  by (subst Fe3Fet_Liq_floats[OF example_T_C example_P_GPa example_logfO2])
     (simp add: example_filled liq_columns_def getitem_def bindE_def example_ext_def)

lemma example_Combined_eq:
  "Combined (example_ext failing) (fillna (Num 0) example_raw) [Num (1 / 8)] m =
     (if m \<in> set failing then Inl (Raised ''no convergence'') else Inr example_Combined)"
  by (subst Combined_floats[OF example_T_C example_P_GPa])
     (simp add: example_filled Fe3Fet_values_def bindE_def example_ext_def getitem_def
        example_Combined_def)

lemma example_equil_args:
  "\<exists>a. equil_args (example_ext failing) (fillna (Num 0) example_raw) [Num (1 / 8)] = Inr a"
  by (simp add: equil_args_def T_C_values_floats[OF example_T_C] P_bar_floats[OF example_P_GPa]
      Fe3Fet_values_def bindE_def)

lemma example_no_write_failure: "excel_failure (example_ext failing) f wb fs = None"
  by (simp add: example_ext_def)

lemma example_notebook:
  "notebook (example_ext failing) fs =
     equilibrate_loop (example_ext failing) (fillna (Num 0) example_raw) [Num (1 / 8)] model
       \<lparr>files = fs, trace = []\<rparr>"
  by (simp add: notebook_def calculations_def example_load example_Fe3Fet)

lemma example_complete: "fst (notebook (example_ext []) fs) = None"
  unfolding example_notebook model_def
  by (simp add: loop_step[where C = example_Combined] example_Combined_eq
      example_no_write_failure del: equilibrate_loop.simps(2))

lemma example_failed_run:
  "notebook (example_ext [''pMELTS'']) fs =
     (Some (Raised ''no convergence''),
      \<lparr>files = fs(out_name ''MELTSv1.2.0'' \<mapsto> sheet example_Combined,
                   out_name ''MELTSv1.0.2'' \<mapsto> sheet example_Combined),
       trace = schedule [''MELTSv1.2.0'', ''MELTSv1.0.2'']
                 @ [Equilibrate ''pMELTS'' (Some (Raised ''no convergence''))]\<rparr>)"
proof -
  obtain a where a: "equil_args (example_ext [''pMELTS'']) (fillna (Num 0) example_raw) [Num (1 / 8)] = Inr a"
    using example_equil_args by blast
  show ?thesis
    unfolding example_notebook model_def
    by (simp add: loop_step[where C = example_Combined] example_Combined_eq
      loop_call_fail[where e = "Raised ''no convergence''", OF _ a]
      example_no_write_failure schedule_def del: equilibrate_loop.simps(2))
qed

lemma example_failed:
  "trace (snd (notebook (example_ext [''pMELTS'']) fs)) =
     schedule [''MELTSv1.2.0'', ''MELTSv1.0.2''] @ [Equilibrate ''pMELTS'' (Some (Raised ''no convergence''))]"
  by (simp add: example_failed_run)

lemma P_kbar_0_09:
  "P_kbar ext [(''P_GPa'', [Num double_0_09])] = Inr [Num (2026619832316723 / 2 ^ 51)]"
  using P_kbar_floats[of "[(''P_GPa'', [Num double_0_09])]" "[double_0_09]" ext] times_10
  by (simp add: double_0_09_def)

lemma P_bar_0_09:
  "P_bar ext [(''P_GPa'', [Num double_0_09])] = Inr [Fin 900]"
  using P_bar_floats[of "[(''P_GPa'', [Num double_0_09])]" "[double_0_09]" ext] times_10000
  by (simp add: double_0_09_def)

section \<open>Properties of the notebook\<close>

text \<open>
  C3. Data ingestion replaces every missing value of every column by 0.0, before any
  computation. For every loaded table \<open>raw\<close>: the filled table has the same columns in the
  same order; every column \<open>c\<close>, whatever its name, is filled cell by cell (there is no
  per-column guard); filling changes a missing cell to 0.0 and no other cell; no cell of
  the filled table is missing; and when the spreadsheet loads as \<open>raw\<close>, the table the
  notebook computes with, in the conversion and in the loop, is the filled one.
\<close>

theorem zero_fill_all_columns:
  "map fst (fillna (Num 0) raw) = map fst raw
   \<and> map_of (fillna (Num 0) raw) c = map_option (map (fill (Num 0))) (map_of raw c)
   \<and> fill (Num 0) x = (if x = NaN then Num 0 else x)
   \<and> (\<forall>(n, xs) \<in> set (fillna (Num 0) raw). NaN \<notin> set xs)
   \<and> (read_excel ext fs ''df_for_MELTS_H2O_fo2.xlsx'' = Inr raw \<longrightarrow>
        load_data ext fs = Inr (fillna (Num 0) raw)
        \<and> notebook ext fs = calculations ext (fillna (Num 0) raw) fs)"
  apply (intro conjI)
  subgoal by (induction raw) (auto simp: fillna_def)
  subgoal by (rule map_of_fillna)
  subgoal by (cases x) (simp_all add: fill_def)
  subgoal using fillna_no_NaN[of "Num 0"] by auto
  subgoal by (simp add: notebook_def load_data_def bindE_def)
  done

theorem zero_fill_all_columns_witness:
  "read_excel (example_ext []) Map.empty ''df_for_MELTS_H2O_fo2.xlsx'' = Inr example_raw
   \<and> load_data (example_ext []) Map.empty = Inr (fillna (Num 0) example_raw)
   \<and> notebook (example_ext []) Map.empty
       = calculations (example_ext []) (fillna (Num 0) example_raw) Map.empty
   \<and> map_of example_raw ''Citation'' = Some [NaN]
   \<and> map_of (fillna (Num 0) example_raw) ''Citation'' = Some [Num 0]
   \<and> (''H2O_Liq'', [Num 0]) \<in> set (fillna (Num 0) example_raw)
   \<and> NaN \<notin> set [Num 0]"
proof -
  note t = zero_fill_all_columns[of example_raw "''Citation''" NaN "example_ext []" Map.empty]
  have r: "read_excel (example_ext []) Map.empty ''df_for_MELTS_H2O_fo2.xlsx'' = Inr example_raw"
    by (simp add: example_ext_def)
  have c: "map_of example_raw ''Citation'' = Some [NaN]"
    by (simp add: example_raw_def)
  have h: "(''H2O_Liq'', [Num 0]) \<in> set (fillna (Num 0) example_raw)"
    unfolding example_filled by simp
  from t r have "load_data (example_ext []) Map.empty = Inr (fillna (Num 0) example_raw)
     \<and> notebook (example_ext []) Map.empty
       = calculations (example_ext []) (fillna (Num 0) example_raw) Map.empty"
    by blast
  moreover from t c have "map_of (fillna (Num 0) example_raw) ''Citation'' = Some [Num 0]"
    by (simp add: fill_def)
  moreover from t h have "NaN \<notin> set [Num 0]" by blast
  ultimately show ?thesis using r c h by blast
qed

text \<open>
  C4. A failing equilibration call ends the run. If the log of a run holds a call of
  \<open>equilibrate_multi\<close> for a model \<open>m\<close> that raised \<open>e\<close>, then the run ends with \<open>e\<close>
  (nothing catches it), and the list of models splits as \<open>pre @ m # post\<close> such that:
  the log is the complete schedule of the models before \<open>m\<close> followed by the failed call
  and nothing else, so \<open>m\<close> is called once (no retry), the files written are those of
  \<open>pre\<close> only, and no model after \<open>m\<close> is called; the output files of \<open>m\<close> and of the
  models after it are as they were before the run; the file of each model before \<open>m\<close>
  holds the table written for it; every other file is as it was.
\<close>

theorem equilibration_failure_propagates:
  assumes "Equilibrate m (Some e) \<in> set (trace (snd (notebook ext fs)))"
  shows "fst (notebook ext fs) = Some e \<and>
         (\<exists>Data fe pre post.
            load_data ext fs = Inr Data \<and> Fe3Fet_Liq ext Data = Inr fe \<and>
            model = pre @ m # post \<and> Combined ext Data fe m = Inl e \<and>
            trace (snd (notebook ext fs)) = schedule pre @ [Equilibrate m (Some e)] \<and>
            length (filter (\<lambda>ev. attempted ev = Equilibrate m None)
                     (trace (snd (notebook ext fs)))) = 1 \<and>
            written_files (trace (snd (notebook ext fs))) = map out_name pre \<and>
            (\<forall>m' \<in> set post. \<forall>x. Equilibrate m' x \<notin> set (trace (snd (notebook ext fs)))) \<and>
            (\<forall>m' \<in> set (m # post).
               files (snd (notebook ext fs)) (out_name m') = fs (out_name m')) \<and>
            (\<forall>m' \<in> set pre. \<exists>C. Combined ext Data fe m' = Inr C \<and>
               files (snd (notebook ext fs)) (out_name m') = Some [(''All Data'', C)]) \<and>
            (\<forall>f. f \<notin> out_name ` set pre \<longrightarrow> files (snd (notebook ext fs)) f = fs f))"
  using notebook_outcome_short[of ext fs]
proof (elim disjE exE conjE)
  fix e'
  assume "notebook ext fs = (Some e', \<lparr>files = fs, trace = []\<rparr>)"
  with assms show ?thesis by simp
next
  let ?st = "snd (notebook ext fs)"
  fix Data fe pre rest evs fs1
  assume l: "load_data ext fs = Inr Data" and f: "Fe3Fet_Liq ext Data = Inr fe"
    and mo: "model = pre @ rest" and t: "trace ?st = schedule pre @ evs"
    and w: "written ext Data fe pre fs fs1"
    and h: "halted ext Data fe rest (fst (notebook ext fs)) evs fs1 (files ?st)"
  from assms have "Equilibrate m (Some e) \<in> set evs"
    unfolding t using no_failure_in_schedule[of m e pre] by simp
  from halted_failed_call[OF h this] obtain post where
    r: "fst (notebook ext fs) = Some e" and evs: "evs = [Equilibrate m (Some e)]"
    and c: "Combined ext Data fe m = Inl e" and same: "files ?st = fs1"
    and rest: "rest = m # post"
    by (elim conjE exE)
  have mo': "model = pre @ m # post" using mo rest by simp
  have t': "trace ?st = schedule pre @ [Equilibrate m (Some e)]" using t evs by simp
  have wr: "written ext Data fe pre fs (files ?st)" using w same by simp
  have d: "distinct (pre @ m # post)" using distinct_model mo' by simp
  then have mpre: "m \<notin> set pre" by simp
  have once: "length (filter (\<lambda>ev. attempted ev = Equilibrate m None) (trace ?st)) = 1"
    unfolding t' using calls_in_schedule[OF mpre] by simp
  have wf: "written_files (trace ?st) = map out_name pre"
    unfolding t' by (simp add: written_files_append written_files_schedule)
  have later: "\<forall>m' \<in> set post. \<forall>x. Equilibrate m' x \<notin> set (trace ?st)"
  proof (intro ballI allI notI)
    fix m' x
    assume p: "m' \<in> set post" and "Equilibrate m' x \<in> set (trace ?st)"
    then have "Equilibrate m' x \<in> set (schedule pre) \<or> m' = m"
      unfolding t' by auto
    then have "m' \<in> set pre \<or> m' = m"
      using Equilibrate_in_schedule[of m' x pre] by blast
    with p d show False by auto
  qed
  have untouched: "\<forall>m' \<in> set (m # post). files ?st (out_name m') = fs (out_name m')"
  proof
    fix m'
    assume "m' \<in> set (m # post)"
    with d have "m' \<notin> set pre" by auto
    with wr show "files ?st (out_name m') = fs (out_name m')"
      by (rule written_untouched)
  qed
  have before: "\<forall>m' \<in> set pre. \<exists>C. Combined ext Data fe m' = Inr C \<and>
               files ?st (out_name m') = Some [(''All Data'', C)]"
    using wr by (simp add: written_def sheet_def)
  have others: "\<forall>f. f \<notin> out_name ` set pre \<longrightarrow> files ?st f = fs f"
    using wr by (simp add: written_def)
  have "\<exists>Data fe pre post.
            load_data ext fs = Inr Data \<and> Fe3Fet_Liq ext Data = Inr fe \<and>
            model = pre @ m # post \<and> Combined ext Data fe m = Inl e \<and>
            trace ?st = schedule pre @ [Equilibrate m (Some e)] \<and>
            length (filter (\<lambda>ev. attempted ev = Equilibrate m None) (trace ?st)) = 1 \<and>
            written_files (trace ?st) = map out_name pre \<and>
            (\<forall>m' \<in> set post. \<forall>x. Equilibrate m' x \<notin> set (trace ?st)) \<and>
            (\<forall>m' \<in> set (m # post). files ?st (out_name m') = fs (out_name m')) \<and>
            (\<forall>m' \<in> set pre. \<exists>C. Combined ext Data fe m' = Inr C \<and>
               files ?st (out_name m') = Some [(''All Data'', C)]) \<and>
            (\<forall>f. f \<notin> out_name ` set pre \<longrightarrow> files ?st f = fs f)"
    using l f mo' c t' once wf later untouched before others
    by (rule_tac x = Data in exI, rule_tac x = fe in exI, rule_tac x = pre in exI,
        rule_tac x = post in exI) (intro conjI)
  with r show ?thesis by (rule conjI)
qed

theorem equilibration_failure_propagates_witness:
  "Equilibrate ''pMELTS'' (Some (Raised ''no convergence''))
     \<in> set (trace (snd (notebook (example_ext [''pMELTS'']) Map.empty)))
   \<and> fst (notebook (example_ext [''pMELTS'']) Map.empty) = Some (Raised ''no convergence'')
   \<and> files (snd (notebook (example_ext [''pMELTS'']) Map.empty)) ''pMELTS_filt_withfO2_H2O.xlsx''
       = None"
proof -
  let ?st = "snd (notebook (example_ext [''pMELTS'']) Map.empty)"
  have h: "Equilibrate ''pMELTS'' (Some (Raised ''no convergence'')) \<in> set (trace ?st)"
    unfolding example_failed by simp
  note t = equilibration_failure_propagates[OF h]
  from t have r: "fst (notebook (example_ext [''pMELTS'']) Map.empty) = Some (Raised ''no convergence'')"
    by (rule conjunct1)
  from t obtain post where
    "\<forall>m' \<in> set (''pMELTS'' # post). files ?st (out_name m') = Map.empty (out_name m')"
    by (elim conjE exE)
  then have "files ?st (out_name ''pMELTS'') = None" by simp
  then have f: "files ?st ''pMELTS_filt_withfO2_H2O.xlsx'' = None"
    by (simp add: out_name_def)
  from h r f show ?thesis by (intro conjI)
qed



text \<open>
  The claim as first stated has the pressure in bars equal 1000 times the pressure in
  kilobars in every row. It fails in doubles: at the pressure 0.09 GPa (the double nearest
  to 0.09) the code passes 0.8999999999999999 kbar to the conversion and 900.0 bar to the
  equilibration, and 1000 times the former is not 900.
\<close>

theorem unit_conversions_counterexample:
  "round64 (9 / 100) = Fin double_0_09
   \<and> P_kbar (example_ext []) [(''P_GPa'', [Num double_0_09])]
       = Inr [Num (2026619832316723 / 2 ^ 51)]
   \<and> P_bar (example_ext []) [(''P_GPa'', [Num double_0_09])] = Inr [Fin 900]
   \<and> (900 :: real) \<noteq> 1000 * (2026619832316723 / 2 ^ 51)"
proof (intro conjI)
  show "round64 (9 / 100) = Fin double_0_09"
    unfolding double_0_09_def by (rule double_009)
  show "P_kbar (example_ext []) [(''P_GPa'', [Num double_0_09])]
       = Inr [Num (2026619832316723 / 2 ^ 51)]" by (rule P_kbar_0_09)
  show "P_bar (example_ext []) [(''P_GPa'', [Num double_0_09])] = Inr [Fin 900]"
    by (rule P_bar_0_09)
  show "(900 :: real) \<noteq> 1000 * (2026619832316723 / 2 ^ 51)" by simp
qed



text \<open>
  The claim as first stated promises a file for every model. It fails for a run in which
  a call raises: when the equilibration of the third model raises, the run ends with that
  exception and no file of the third model exists.
\<close>

theorem one_workbook_per_model_counterexample:
  "''pMELTS'' \<in> set model
   \<and> fst (notebook (example_ext [''pMELTS'']) Map.empty) = Some (Raised ''no convergence'')
   \<and> files (snd (notebook (example_ext [''pMELTS'']) Map.empty)) (out_name ''pMELTS'') = None
   \<and> out_name ''pMELTS'' = ''pMELTS_filt_withfO2_H2O.xlsx''"
  by (simp add: example_failed_run model_def out_name_def)

text \<open>
  C9. The models are processed one after the other, in the listed order. Every run
  either stops before the loop (loading or the conversion raised; no file is touched), or
  completes an initial segment \<open>pre\<close> of the list and then is done or stops at the next
  model:
  for each model of \<open>pre\<close> the call returned a table and the file of the model holds it
  as its only sheet, and every other file is as it was before the run (this file system
  is \<open>fs1\<close>); the log is the schedule of \<open>pre\<close>, a call and then the write of its file
  for each model in order, followed by the events of the model at which the run stopped;
  either all five models are completed and the run ends without an exception, or the run
  ends with the exception raised at the first model not completed: by an argument of its
  call (no call is made), by its call (no file is written), or by its write (the file
  system is then as the failed write left it). So a model is called only after every
  model listed before it has been called and its file written, and nothing but the five
  models is processed.
\<close>

theorem models_in_listed_order:
  "((\<exists>e. notebook ext fs = (Some e, \<lparr>files = fs, trace = []\<rparr>) \<and>
        (load_data ext fs = Inl e \<or>
         (\<exists>Data. load_data ext fs = Inr Data \<and> Fe3Fet_Liq ext Data = Inl e))) \<or>
    (\<exists>Data fe pre rest evs fs1.
        load_data ext fs = Inr Data \<and> Fe3Fet_Liq ext Data = Inr fe \<and>
        model = pre @ rest \<and> trace (snd (notebook ext fs)) = schedule pre @ evs \<and>
        ((\<forall>f. f \<notin> out_name ` set pre \<longrightarrow> fs1 f = fs f) \<and>
         (\<forall>m \<in> set pre. \<exists>C. Combined ext Data fe m = Inr C \<and>
             fs1 (out_name m) = Some [(''All Data'', C)])) \<and>
        ((fst (notebook ext fs) = None \<and> rest = [] \<and> evs = [] \<and>
            files (snd (notebook ext fs)) = fs1) \<or>
         (\<exists>m post e. rest = m # post \<and> fst (notebook ext fs) = Some e \<and>
            ((evs = [] \<and> equil_args ext Data fe = Inl e \<and>
                files (snd (notebook ext fs)) = fs1) \<or>
             (evs = [Equilibrate m (Some e)] \<and> (\<exists>a. equil_args ext Data fe = Inr a) \<and>
                Combined ext Data fe m = Inl e \<and> files (snd (notebook ext fs)) = fs1) \<or>
             (evs = [Equilibrate m None, ExcelWrite (out_name m)] \<and>
                (\<exists>C. Combined ext Data fe m = Inr C \<and>
                   excel_failure ext (out_name m) [(''All Data'', C)] fs1
                     = Some (e, files (snd (notebook ext fs))))))))))
   \<and> model = [''MELTSv1.2.0'', ''MELTSv1.0.2'', ''pMELTS'', ''Green2025'', ''Weller2024'']
   \<and> schedule model =
     [Equilibrate ''MELTSv1.2.0'' None, ExcelWrite ''MELTSv1.2.0_filt_withfO2_H2O.xlsx'',
      Equilibrate ''MELTSv1.0.2'' None, ExcelWrite ''MELTSv1.0.2_filt_withfO2_H2O.xlsx'',
      Equilibrate ''pMELTS'' None, ExcelWrite ''pMELTS_filt_withfO2_H2O.xlsx'',
      Equilibrate ''Green2025'' None, ExcelWrite ''Green2025_filt_withfO2_H2O.xlsx'',
      Equilibrate ''Weller2024'' None, ExcelWrite ''Weller2024_filt_withfO2_H2O.xlsx'']"
proof (intro conjI)
  show "model = [''MELTSv1.2.0'', ''MELTSv1.0.2'', ''pMELTS'', ''Green2025'', ''Weller2024'']"
    by (rule model_def)
  show "schedule model =
     [Equilibrate ''MELTSv1.2.0'' None, ExcelWrite ''MELTSv1.2.0_filt_withfO2_H2O.xlsx'',
      Equilibrate ''MELTSv1.0.2'' None, ExcelWrite ''MELTSv1.0.2_filt_withfO2_H2O.xlsx'',
      Equilibrate ''pMELTS'' None, ExcelWrite ''pMELTS_filt_withfO2_H2O.xlsx'',
      Equilibrate ''Green2025'' None, ExcelWrite ''Green2025_filt_withfO2_H2O.xlsx'',
      Equilibrate ''Weller2024'' None, ExcelWrite ''Weller2024_filt_withfO2_H2O.xlsx'']"
    by (rule schedule_model)
  show "(\<exists>e. notebook ext fs = (Some e, \<lparr>files = fs, trace = []\<rparr>) \<and>
        (load_data ext fs = Inl e \<or>
         (\<exists>Data. load_data ext fs = Inr Data \<and> Fe3Fet_Liq ext Data = Inl e))) \<or>
    (\<exists>Data fe pre rest evs fs1.
        load_data ext fs = Inr Data \<and> Fe3Fet_Liq ext Data = Inr fe \<and>
        model = pre @ rest \<and> trace (snd (notebook ext fs)) = schedule pre @ evs \<and>
        ((\<forall>f. f \<notin> out_name ` set pre \<longrightarrow> fs1 f = fs f) \<and>
         (\<forall>m \<in> set pre. \<exists>C. Combined ext Data fe m = Inr C \<and>
             fs1 (out_name m) = Some [(''All Data'', C)])) \<and>
        ((fst (notebook ext fs) = None \<and> rest = [] \<and> evs = [] \<and>
            files (snd (notebook ext fs)) = fs1) \<or>
         (\<exists>m post e. rest = m # post \<and> fst (notebook ext fs) = Some e \<and>
            ((evs = [] \<and> equil_args ext Data fe = Inl e \<and>
                files (snd (notebook ext fs)) = fs1) \<or>
             (evs = [Equilibrate m (Some e)] \<and> (\<exists>a. equil_args ext Data fe = Inr a) \<and>
                Combined ext Data fe m = Inl e \<and> files (snd (notebook ext fs)) = fs1) \<or>
             (evs = [Equilibrate m None, ExcelWrite (out_name m)] \<and>
                (\<exists>C. Combined ext Data fe m = Inr C \<and>
                   excel_failure ext (out_name m) [(''All Data'', C)] fs1
                     = Some (e, files (snd (notebook ext fs)))))))))"
    using notebook_outcome[of ext fs]
    unfolding written_def halted_def sheet_def .
qed

theorem models_in_listed_order_witness:
  "fst (notebook (example_ext []) Map.empty) = None
   \<and> trace (snd (notebook (example_ext []) Map.empty)) = schedule model
   \<and> (\<exists>C. files (snd (notebook (example_ext []) Map.empty)) (out_name ''pMELTS'')
          = Some [(''All Data'', C)])
   \<and> files (snd (notebook (example_ext []) Map.empty)) ''df_for_MELTS_H2O_fo2.xlsx'' = None"
proof -
  let ?nb = "notebook (example_ext []) Map.empty"
  have n: "fst ?nb = None" by (rule example_complete)
  have p: "''pMELTS'' \<in> set model" by (simp add: model_def)
  have o: "''df_for_MELTS_H2O_fo2.xlsx'' \<notin> out_name ` set model"
    by (simp add: model_def out_name_def)
  from conjunct1[OF models_in_listed_order[of "example_ext []" Map.empty]]
  have "trace (snd ?nb) = schedule model
   \<and> (\<exists>C. files (snd ?nb) (out_name ''pMELTS'') = Some [(''All Data'', C)])
   \<and> files (snd ?nb) ''df_for_MELTS_H2O_fo2.xlsx'' = None"
  proof (elim disjE exE conjE)
    fix e
    assume "?nb = (Some e, \<lparr>files = Map.empty, trace = []\<rparr>)"
    with n show ?thesis by simp
  next
    fix e Data
    assume "?nb = (Some e, \<lparr>files = Map.empty, trace = []\<rparr>)"
    with n show ?thesis by simp
  next
    fix Data fe pre rest evs fs1
    assume "fst ?nb = None" and r: "rest = []" and e: "evs = []" and f: "files (snd ?nb) = fs1"
      and m: "model = pre @ rest" and t: "trace (snd ?nb) = schedule pre @ evs"
      and u: "\<forall>f. f \<notin> out_name ` set pre \<longrightarrow> fs1 f = Map.empty f"
      and w: "\<forall>m \<in> set pre. \<exists>C. Combined (example_ext []) Data fe m = Inr C \<and>
             fs1 (out_name m) = Some [(''All Data'', C)]"
    from m r have mp: "pre = model" by simp
    from t e mp have "trace (snd ?nb) = schedule model" by simp
    moreover from w mp p have "\<exists>C. Combined (example_ext []) Data fe ''pMELTS'' = Inr C \<and>
             fs1 (out_name ''pMELTS'') = Some [(''All Data'', C)]" by blast
    then have "\<exists>C. files (snd ?nb) (out_name ''pMELTS'') = Some [(''All Data'', C)]"
      using f by blast
    moreover from u mp o f have "files (snd ?nb) ''df_for_MELTS_H2O_fo2.xlsx'' = None" by simp
    ultimately show ?thesis by (intro conjI)
  next
    fix Data fe pre rest evs fs1 m post e
    assume "fst ?nb = Some e"
    with n show ?thesis by simp
  next
    fix Data fe pre rest evs fs1 m post e
    assume "fst ?nb = Some e"
    with n show ?thesis by simp
  next
    fix Data fe pre rest evs fs1 m post e
    assume "fst ?nb = Some e"
    with n show ?thesis by simp
  qed
  with n show ?thesis by (intro conjI) simp_all
qed

text \<open>
  C10. The ferric-iron fraction depends on fifteen columns only. If two tables agree on
  the twelve liquid oxide columns and on \<^verbatim>\<open>T_C\<close>, \<^verbatim>\<open>P_GPa\<close> and \<^verbatim>\<open>logfO2\<close>, the conversion
  (called with \<^verbatim>\<open>renorm=False\<close> and the model \<^verbatim>\<open>Kress1991\<close>) is called with the same arguments
  and gives the same result for both, whatever their other columns hold; this holds for the
  tables as they are and for the tables after the missing cells are filled.
\<close>

theorem Fe3Fet_Liq_reads_fifteen_columns:
  assumes "\<forall>c \<in> set (liq_columns @ [''T_C'', ''P_GPa'', ''logfO2'']). map_of t1 c = map_of t2 c"
  shows "Fe3Fet_Liq ext t1 = Fe3Fet_Liq ext t2
         \<and> Fe3Fet_Liq ext (fillna (Num 0) t1) = Fe3Fet_Liq ext (fillna (Num 0) t2)"
proof
  have "convert_args ext t1 = convert_args ext t2"
    using assms by (intro convert_args_cong) (rule bspec)
  then show "Fe3Fet_Liq ext t1 = Fe3Fet_Liq ext t2"
    by (simp add: Fe3Fet_Liq_def)
  have "convert_args ext (fillna (Num 0) t1) = convert_args ext (fillna (Num 0) t2)"
  proof (rule convert_args_cong)
    fix c assume "c \<in> set (liq_columns @ [''T_C'', ''P_GPa'', ''logfO2''])"
    with assms have "map_of t1 c = map_of t2 c" by blast
    then show "map_of (fillna (Num 0) t1) c = map_of (fillna (Num 0) t2) c"
      by (simp add: map_of_fillna)
  qed
  then show "Fe3Fet_Liq ext (fillna (Num 0) t1) = Fe3Fet_Liq ext (fillna (Num 0) t2)"
    by (simp add: Fe3Fet_Liq_def)
qed

theorem Fe3Fet_Liq_reads_fifteen_columns_witness:
  "map (map_of example_raw) (liq_columns @ [''T_C'', ''P_GPa'', ''logfO2''])
     = map (map_of example_other) (liq_columns @ [''T_C'', ''P_GPa'', ''logfO2''])
   \<and> map_of example_raw ''Experiment'' \<noteq> map_of example_other ''Experiment''
   \<and> Fe3Fet_Liq (example_ext []) example_raw = Fe3Fet_Liq (example_ext []) example_other
   \<and> Fe3Fet_Liq (example_ext []) (fillna (Num 0) example_raw)
       = Fe3Fet_Liq (example_ext []) (fillna (Num 0) example_other)"
proof -
  have e: "map (map_of example_raw) (liq_columns @ [''T_C'', ''P_GPa'', ''logfO2''])
     = map (map_of example_other) (liq_columns @ [''T_C'', ''P_GPa'', ''logfO2''])"
    by (simp add: liq_columns_def example_other_def example_raw_def)
  then have a: "\<forall>c \<in> set (liq_columns @ [''T_C'', ''P_GPa'', ''logfO2'']).
      map_of example_raw c = map_of example_other c"
    by (simp only: map_eq_conv)
  have b: "map_of example_raw ''Experiment'' \<noteq> map_of example_other ''Experiment''"
    by (simp add: example_other_def example_raw_def)
  from Fe3Fet_Liq_reads_fifteen_columns[OF a, of "example_ext []"] e b show ?thesis
    by (intro conjI) simp_all
qed

end
